theory Spec2Isabelle
  imports Main "HOL-Library.Word" "HOL-Library.Sublist"
begin

section \<open>JavaScript strings\<close>

text \<open>
  A JavaScript string is a sequence of UTF-16 code units; \<open>includes\<close>, \<open>trim\<close>,
  \<open>replace\<close> and \<open>+=\<close> all work on code units. Literals of the source that are
  plain ASCII are written through \<open>ascii\<close>; the Korean literals and the two emoji
  (surrogate pairs) are written as their code units.
\<close>

type_synonym jsstring = "16 word list"

definition ascii :: "string \<Rightarrow> jsstring" where
  "ascii s = map (\<lambda>c. word_of_nat (of_char c)) s"

text \<open>
  \<open>String.prototype.includes(search)\<close>: some position of the receiver starts an
  occurrence of \<open>search\<close>; the empty search string is found in every string.
\<close>

fun js_includes :: "jsstring \<Rightarrow> jsstring \<Rightarrow> bool" where
  "js_includes [] s = (s = [])"
| "js_includes (x # xs) s = (prefix s (x # xs) \<or> js_includes xs s)"

text \<open>
  \<open>String.prototype.trim()\<close> strips the code units of ECMAScript's WhiteSpace and
  LineTerminator productions from both ends.
\<close>

definition js_is_space :: "16 word \<Rightarrow> bool" where
  "js_is_space c = (c \<in> set [0x0009, 0x000A, 0x000B, 0x000C, 0x000D, 0x0020, 0x00A0,
     0x1680, 0x2000, 0x2001, 0x2002, 0x2003, 0x2004, 0x2005, 0x2006, 0x2007, 0x2008,
     0x2009, 0x200A, 0x2028, 0x2029, 0x202F, 0x205F, 0x3000, 0xFEFF])"

definition js_trim :: "jsstring \<Rightarrow> jsstring" where
  "js_trim s = rev (dropWhile js_is_space (rev (dropWhile js_is_space s)))"

text \<open>\<open>s.replace(/"/g, '')\<close>: every double quote (U+0022) is removed.\<close>

definition strip_quotes :: "jsstring \<Rightarrow> jsstring" where
  "strip_quotes s = filter (\<lambda>c. c \<noteq> 0x0022) s"

section \<open>The application object and the page\<close>

text \<open>
  One chat message, as the object literals of the source build it: \<open>id\<close> is a number
  (\<open>Date.now()\<close> is an integer count of milliseconds, so \<open>+ 1\<close> is exact),
  \<open>sender\<close> and \<open>text\<close> are strings.
\<close>

record tciMsg =
  tciMsg_id :: int
  tciMsg_sender :: jsstring
  tciMsg_text :: jsstring

record tciMoamoaApp =
  tciMobileMenuOpen :: bool
  tciChatMessages :: "tciMsg list"
  tciIsTyping :: bool

text \<open>
  What a handler can end with: it returns, or an uncaught \<open>TypeError\<close> leaves it.
  The assignments made before the throw stay.
\<close>

datatype outcome = Returned | TypeError

text \<open>
  The page around the application object. \<open>chatEl\<close> is the element
  \<open>#tci-chat-messages\<close>: \<open>None\<close> when the page has no such element, otherwise the
  markup last written into it. \<open>timers\<close> holds the callbacks scheduled by
  \<open>setTimeout\<close> that have not run yet, in scheduling order; all are scheduled with
  the same delay of 1500 ms, so they run in that order, and each is identified by the
  \<open>tciInputText\<close> its closure captured.
\<close>

record page =
  app :: tciMoamoaApp
  chatEl :: "jsstring option"
  timers :: "jsstring list"

definition sender_user :: jsstring where
  "sender_user = ascii ''user''"

definition sender_bot :: jsstring where
  "sender_bot = ascii ''bot''"

definition seed_text :: jsstring where
  "seed_text = [0xC548, 0xB155, 0x0021, 0x0020, 0xC624, 0xB298, 0x0020, 0xD559, 0xC6A9,
     0xD488, 0x0020, 0xC0B0, 0x0020, 0xAC70, 0x0020, 0xC788, 0xC5B4, 0x003F]"

definition tciMoamoaApp_init :: tciMoamoaApp where
  "tciMoamoaApp_init = \<lparr> tciMobileMenuOpen = False,
     tciChatMessages = [\<lparr> tciMsg_id = 1, tciMsg_sender = sender_bot, tciMsg_text = seed_text \<rparr>],
     tciIsTyping = False \<rparr>"

definition page_init :: "jsstring option \<Rightarrow> page" where
  "page_init el = \<lparr> app = tciMoamoaApp_init, chatEl = el, timers = [] \<rparr>"

section \<open>Rendering\<close>

subsection \<open>The string literals of the two render functions\<close>

definition user_open :: jsstring where
  \<open>user_open = ascii ''<div class="flex justify-end">''
     @ ascii ''<div class="max-w-[80%] p-3 rounded-2xl text-sm bg-blue-500 text-white rounded-tr-none">''\<close>

definition bot_open :: jsstring where
  \<open>bot_open = ascii ''<div class="flex justify-start">''
     @ ascii ''<div class="w-8 h-8 bg-yellow-400 rounded-full flex items-center justify-center mr-2 text-white font-bold text-xs flex-shrink-0">M</div>''
     @ ascii ''<div class="max-w-[80%] p-3 rounded-2xl text-sm bg-gray-100 text-gray-800 rounded-tl-none">''\<close>

definition block_close :: jsstring where
  \<open>block_close = ascii ''</div></div>''\<close>

definition typing_text :: jsstring where
  "typing_text = [0xC785, 0xB825, 0x0020, 0xC911, 0x002E, 0x002E, 0x002E]"

definition typing_block :: jsstring where
  \<open>typing_block = ascii ''<div class="flex justify-start">''
     @ ascii ''<div class="w-8 h-8 bg-yellow-400 rounded-full flex items-center justify-center mr-2 text-white font-bold text-xs">M</div>''
     @ ascii ''<div class="bg-gray-100 p-3 rounded-2xl rounded-tl-none text-xs text-gray-500">''
     @ typing_text
     @ ascii ''</div></div>''\<close>

subsection \<open>The closure \<open>tciRenderMessages\<close> inside \<open>tciInitChatDemo\<close>\<close>

text \<open>
  The body of the \<open>forEach\<close> callback: four \<open>+=\<close> on \<open>tciHtml\<close> for a message
  whose sender is \<open>'user'\<close>, five for any other sender.
\<close>

definition local_forEach_body :: "jsstring \<Rightarrow> tciMsg \<Rightarrow> jsstring" where
  \<open>local_forEach_body tciHtml m =
     (if tciMsg_sender m = ascii ''user'' then
        (((tciHtml @ ascii ''<div class="flex justify-end">'')
          @ ascii ''<div class="max-w-[80%] p-3 rounded-2xl text-sm bg-blue-500 text-white rounded-tr-none">'')
          @ tciMsg_text m)
          @ ascii ''</div></div>''
      else
        ((((tciHtml @ ascii ''<div class="flex justify-start">'')
          @ ascii ''<div class="w-8 h-8 bg-yellow-400 rounded-full flex items-center justify-center mr-2 text-white font-bold text-xs flex-shrink-0">M</div>'')
          @ ascii ''<div class="max-w-[80%] p-3 rounded-2xl text-sm bg-gray-100 text-gray-800 rounded-tl-none">'')
          @ tciMsg_text m)
          @ ascii ''</div></div>'')\<close>

definition local_tciHtml :: "tciMoamoaApp \<Rightarrow> jsstring" where
  \<open>local_tciHtml a =
     (let tciHtml = foldl local_forEach_body [] (tciChatMessages a)
      in if tciIsTyping a then
           ((((tciHtml @ ascii ''<div class="flex justify-start">'')
             @ ascii ''<div class="w-8 h-8 bg-yellow-400 rounded-full flex items-center justify-center mr-2 text-white font-bold text-xs">M</div>'')
             @ ascii ''<div class="bg-gray-100 p-3 rounded-2xl rounded-tl-none text-xs text-gray-500">'')
             @ [0xC785, 0xB825, 0x0020, 0xC911, 0x002E, 0x002E, 0x002E])
             @ ascii ''</div></div>''
         else tciHtml)\<close>

text \<open>
  Writing the markup: \<open>$el.html(tciHtml)\<close> does nothing on an empty jQuery set, and
  \<open>$el[0].scrollHeight\<close> then reads a property of \<open>undefined\<close>, which throws.
  The scroll position itself (a layout quantity) is not part of the model.
\<close>

definition write_chatEl :: "jsstring \<Rightarrow> page \<Rightarrow> outcome \<times> page" where
  "write_chatEl tciHtml p =
     (case chatEl p of
        None \<Rightarrow> (TypeError, p)
      | Some old \<Rightarrow> (Returned, p\<lparr>chatEl := Some tciHtml\<rparr>))"

definition local_tciRenderMessages :: "page \<Rightarrow> outcome \<times> page" where
  "local_tciRenderMessages p = write_chatEl (local_tciHtml (app p)) p"

subsection \<open>The global \<open>tciMoamoaApp.tciRenderMessages\<close>\<close>

definition forEach_body :: "jsstring \<Rightarrow> tciMsg \<Rightarrow> jsstring" where
  "forEach_body tciHtml m =
     (if tciMsg_sender m = sender_user then tciHtml @ user_open @ tciMsg_text m @ block_close
      else tciHtml @ bot_open @ tciMsg_text m @ block_close)"

definition tciHtml_of :: "tciMoamoaApp \<Rightarrow> jsstring" where
  "tciHtml_of a =
     (let tciHtml = foldl forEach_body [] (tciChatMessages a)
      in if tciIsTyping a then tciHtml @ typing_block else tciHtml)"

definition tciRenderMessages :: "page \<Rightarrow> outcome \<times> page" where
  "tciRenderMessages p = write_chatEl (tciHtml_of (app p)) p"

section \<open>Sending a chat message\<close>

text \<open>
  The Korean literals of \<open>tciHandleChatSend\<close>, as UTF-16 code units: the three
  keywords of the first \<open>if\<close> (notebook, pencil, stationery shop), the two of the
  \<open>else if\<close> (snack, tteokbokki), and the three replies: the initial value of
  \<open>tciBotResponse\<close> and the two values assigned to it. The pairs
  \<open>0xD83D, 0xDCDA\<close> and \<open>0xD83D, 0xDE0B\<close> are the surrogate pairs of the two emoji.
\<close>

definition kw_notebook :: jsstring where "kw_notebook = [0xACF5, 0xCC45]"
definition kw_pencil :: jsstring where "kw_pencil = [0xC5F0, 0xD544]"
definition kw_stationery :: jsstring where "kw_stationery = [0xBB38, 0xAD6C, 0xC810]"
definition kw_snack :: jsstring where "kw_snack = [0xACFC, 0xC790]"
definition kw_tteokbokki :: jsstring where "kw_tteokbokki = [0xB5A1, 0xBCF6, 0xC774]"

definition reply_generic :: jsstring where
  "reply_generic = [0xC54C, 0xACA0, 0xC5B4, 0x0021, 0x0020, 0xAE30, 0xB85D, 0xD574, 0xB458,
     0xAC8C, 0x002E]"

definition reply_supplies :: jsstring where
  "reply_supplies = [0xC624, 0x002C, 0x0020, 0xACF5, 0xBD80, 0x0020, 0xC5F4, 0xC2EC, 0xD788,
     0x0020, 0xD558, 0xB824, 0xB098, 0xBCF4, 0xB2E4, 0x0021, 0x0020, 0xD83D, 0xDCDA, 0x0020,
     0x005B, 0xD559, 0xC6A9, 0xD488, 0x005D, 0xC73C, 0xB85C, 0x0020, 0x0033, 0x002C, 0x0030,
     0x0030, 0x0030, 0xC6D0, 0x0020, 0xAE30, 0xB85D, 0x0020, 0xC644, 0xB8CC, 0x0021, 0x0020,
     0xCC38, 0x0020, 0xC798, 0xD588, 0xC5B4, 0x0021]"

definition reply_snack :: jsstring where
  "reply_snack = [0xB9DB, 0xC788, 0xAC8C, 0x0020, 0xBA39, 0xC5C8, 0xB2C8, 0x003F, 0x0020,
     0xD83D, 0xDE0B, 0x0020, 0x005B, 0xAC04, 0xC2DD, 0x005D, 0xC73C, 0xB85C, 0x0020, 0xBD84,
     0xB958, 0xD588, 0xC5B4, 0x002E, 0x0020, 0xC774, 0xBC88, 0x0020, 0xB2EC, 0x0020, 0xAC04,
     0xC2DD, 0xBE44, 0xAC00, 0x0020, 0xC870, 0xAE08, 0x0020, 0xB9CE, 0xC544, 0xC9C0, 0xB294,
     0xB370, 0x0020, 0xC8FC, 0xC758, 0xD574, 0xBCFC, 0xAE4C, 0x003F]"

text \<open>The value of \<open>tciBotResponse\<close> when the timer callback pushes its message.\<close>

definition tciBotResponse :: "jsstring \<Rightarrow> jsstring" where
  "tciBotResponse tciInputText =
     (if js_includes tciInputText kw_notebook \<or> js_includes tciInputText kw_pencil
         \<or> js_includes tciInputText kw_stationery then reply_supplies
      else if js_includes tciInputText kw_snack \<or> js_includes tciInputText kw_tteokbokki
        then reply_snack
      else reply_generic)"

definition push_msg :: "tciMsg \<Rightarrow> tciMoamoaApp \<Rightarrow> tciMoamoaApp" where
  "push_msg m a = a\<lparr>tciChatMessages := tciChatMessages a @ [m]\<rparr>"

text \<open>
  \<open>tciHandleChatSend(tciInputText)\<close>; \<open>now\<close> is what \<open>Date.now()\<close> returns during
  the call. When the render throws, the function is left before \<open>setTimeout\<close>.
\<close>

definition tciHandleChatSend :: "jsstring \<Rightarrow> int \<Rightarrow> page \<Rightarrow> outcome \<times> page" where
  "tciHandleChatSend tciInputText now p =
     (if js_trim tciInputText = [] \<or> tciIsTyping (app p) then (Returned, p)
      else
        let tciUserMsg = \<lparr> tciMsg_id = now, tciMsg_sender = sender_user,
                            tciMsg_text = tciInputText \<rparr>;
            p1 = p\<lparr>app := (push_msg tciUserMsg (app p))\<lparr>tciIsTyping := True\<rparr>\<rparr>
        in case tciRenderMessages p1 of
             (TypeError, p2) \<Rightarrow> (TypeError, p2)
           | (Returned, p2) \<Rightarrow> (Returned, p2\<lparr>timers := timers p2 @ [tciInputText]\<rparr>))"

text \<open>
  The function given to \<open>setTimeout\<close>, with the \<open>tciInputText\<close> of its closure;
  \<open>now\<close> is what \<open>Date.now()\<close> returns when it runs.
\<close>

definition timeout_callback :: "jsstring \<Rightarrow> int \<Rightarrow> page \<Rightarrow> outcome \<times> page" where
  "timeout_callback tciInputText now p =
     (let tciBotMsg = \<lparr> tciMsg_id = now + 1, tciMsg_sender = sender_bot,
                         tciMsg_text = tciBotResponse tciInputText \<rparr>
      in tciRenderMessages (p\<lparr>app := (push_msg tciBotMsg (app p))\<lparr>tciIsTyping := False\<rparr>\<rparr>))"

text \<open>
  \<open>tciInitChatDemo\<close>: the first render; the two click handlers it then attaches are
  the events \<open>QuickInputClick\<close> and \<open>ChatSendClick\<close> below.
\<close>

definition tciInitChatDemo :: "page \<Rightarrow> outcome \<times> page" where
  "tciInitChatDemo p = local_tciRenderMessages p"

section \<open>The event loop\<close>

text \<open>
  What can happen to the page after it is ready: a call of the exported
  \<open>tciHandleChatSend\<close>, a click on the quick-input button or on the send button (both
  carry the button's text), the oldest pending timer running, and a call of the exported
  \<open>tciRenderMessages\<close>. One-shot timers leave the queue when they run; an event that
  needs a pending timer is not enabled without one.
\<close>

datatype event =
    ChatSend jsstring int
  | QuickInputClick jsstring int
  | ChatSendClick jsstring int
  | TimerFires int
  | Render

fun step :: "event \<Rightarrow> page \<Rightarrow> (outcome \<times> page) option" where
  "step (ChatSend t now) p = Some (tciHandleChatSend t now p)"
| "step (QuickInputClick t now) p = Some (tciHandleChatSend (strip_quotes t) now p)"
| "step (ChatSendClick t now) p =
     (let tciInputText = strip_quotes t
      in if js_trim tciInputText \<noteq> [] then Some (tciHandleChatSend tciInputText now p)
         else Some (Returned, p))"
| "step (TimerFires now) p =
     (case timers p of
        [] \<Rightarrow> None
      | t # ts \<Rightarrow> Some (timeout_callback t now (p\<lparr>timers := ts\<rparr>)))"
| "step Render p = Some (tciRenderMessages p)"

text \<open>A run of events from a page; events that are not enabled are skipped.\<close>

fun run :: "event list \<Rightarrow> page \<Rightarrow> page" where
  "run [] p = p"
| "run (e # es) p = (case step e p of None \<Rightarrow> run es p | Some (r, p') \<Rightarrow> run es p')"

text \<open>
  The pages of a session: the page on which \<open>tciInitChatDemo\<close> returned, and every
  page an event leads to from there.
\<close>

inductive session :: "page \<Rightarrow> bool" where
  session_init: "tciInitChatDemo (page_init el) = (Returned, p) \<Longrightarrow> session p"
| session_step: "session p \<Longrightarrow> step e p = Some (r, p') \<Longrightarrow> session p'"

section \<open>The policy modal\<close>

text \<open>
  The global \<open>window.tciMoamoaPolicyData\<close> is supplied by the surrounding page as an
  object with the two string fields \<open>terms\<close> and \<open>privacy\<close>, or is not defined at
  all (\<open>None\<close>).
\<close>

record policy_data =
  pd_terms :: jsstring
  pd_privacy :: jsstring

text \<open>
  The part of the document \<open>tciOpenModal\<close> touches. An element the page may lack is
  an option: jQuery's setters do nothing on an empty set. \<open>modalHidden\<close> tells whether
  \<open>#tci-policy-modal\<close> carries the class \<open>hidden\<close>. \<open>lucide\<close> tells whether the
  icon library is loaded, \<open>createIconsCalls\<close> counts the calls of
  \<open>lucide.createIcons()\<close>.
\<close>

record modal_page =
  tciMoamoaPolicyData :: "policy_data option"
  modalTitle :: "jsstring option"
  modalContent :: "jsstring option"
  modalHidden :: "bool option"
  bodyOverflow :: jsstring
  lucide :: bool
  createIconsCalls :: nat

definition title_terms :: jsstring where
  "title_terms = [0xC774, 0xC6A9, 0xC57D, 0xAD00]"

definition title_privacy :: jsstring where
  "title_privacy = [0xAC1C, 0xC778, 0xC815, 0xBCF4, 0xCC98, 0xB9AC, 0xBC29, 0xCE68]"

definition jq_set :: "'a \<Rightarrow> 'a option \<Rightarrow> 'a option" where
  "jq_set v el = (case el of None \<Rightarrow> None | Some old \<Rightarrow> Some v)"

definition tciOpenModal :: "jsstring \<Rightarrow> modal_page \<Rightarrow> outcome \<times> modal_page" where
  "tciOpenModal tciType d =
     (let tciTitle = (if tciType = ascii ''terms'' then title_terms else title_privacy);
          tciContent = (case tciMoamoaPolicyData d of
                          None \<Rightarrow> []
                        | Some pd \<Rightarrow> if tciType = ascii ''terms'' then pd_terms pd
                                     else pd_privacy pd);
          d1 = d\<lparr> modalTitle := jq_set tciTitle (modalTitle d),
                  modalContent := jq_set tciContent (modalContent d),
                  modalHidden := jq_set False (modalHidden d),
                  bodyOverflow := ascii ''hidden'' \<rparr>
      in if lucide d1 then (Returned, d1\<lparr>createIconsCalls := createIconsCalls d1 + 1\<rparr>)
         else (Returned, d1))"

section \<open>Auxiliary facts\<close>

lemma js_includes_sublist: "js_includes xs s \<longleftrightarrow> sublist s xs"
  by (induction xs) (auto simp: sublist_Cons_right)

lemma sender_bot_ne_user: "sender_bot \<noteq> sender_user"
  by (simp add: sender_bot_def sender_user_def ascii_def)

lemma foldl_forEach_body:
  "foldl forEach_body acc ms = acc @ concat (map (forEach_body []) ms)"
  by (induction ms arbitrary: acc) (auto simp: forEach_body_def)

lemma foldl_local_forEach_body:
  "foldl local_forEach_body acc ms = foldl forEach_body acc ms"
  by (induction ms arbitrary: acc)
     (simp_all add: local_forEach_body_def forEach_body_def user_open_def bot_open_def
        block_close_def sender_user_def)

text \<open>
  On every page of a session the chat element exists, and a timer is pending exactly
  while \<open>tciIsTyping\<close> is set; there is never more than one.
\<close>

lemma session_inv:
  "session p \<Longrightarrow> chatEl p \<noteq> None
     \<and> (if tciIsTyping (app p) then \<exists>t. timers p = [t] else timers p = [])"
proof (induction rule: session.induct)
  case (session_init el p)
  then show ?case
    by (auto simp: tciInitChatDemo_def local_tciRenderMessages_def write_chatEl_def
        page_init_def tciMoamoaApp_init_def split: option.splits)
next
  case (session_step p e r p')
  then show ?case
    by (cases e)
       (auto simp: tciHandleChatSend_def timeout_callback_def tciRenderMessages_def
          local_tciRenderMessages_def write_chatEl_def push_msg_def Let_def
          split: option.splits if_splits list.splits)
qed

lemma send_accepted:
  assumes "chatEl p = Some h" "js_trim t \<noteq> []" "\<not> tciIsTyping (app p)"
  shows "\<exists>p1. tciHandleChatSend t now p = (Returned, p1)
     \<and> tciChatMessages (app p1) = tciChatMessages (app p)
          @ [\<lparr> tciMsg_id = now, tciMsg_sender = sender_user, tciMsg_text = t \<rparr>]
     \<and> tciIsTyping (app p1) \<and> timers p1 = timers p @ [t]
     \<and> chatEl p1 = Some (tciHtml_of (app p1))"
  using assms
  by (simp add: tciHandleChatSend_def tciRenderMessages_def write_chatEl_def push_msg_def
      Let_def)

lemma callback_runs:
  assumes "chatEl p = Some h"
  shows "\<exists>p2. timeout_callback t now p = (Returned, p2)
     \<and> tciChatMessages (app p2) = tciChatMessages (app p)
          @ [\<lparr> tciMsg_id = now + 1, tciMsg_sender = sender_bot,
               tciMsg_text = tciBotResponse t \<rparr>]
     \<and> \<not> tciIsTyping (app p2) \<and> timers p2 = timers p
     \<and> chatEl p2 = Some (tciHtml_of (app p2))"
  using assms
  by (simp add: timeout_callback_def tciRenderMessages_def write_chatEl_def push_msg_def
      Let_def)

lemma send_then_complete:
  assumes "session p" "js_trim t \<noteq> []" "\<not> tciIsTyping (app p)"
  shows "\<exists>p1 p2. tciHandleChatSend t now p = (Returned, p1) \<and> timers p1 = [t]
     \<and> tciIsTyping (app p1)
     \<and> step (TimerFires now') p1 = Some (Returned, p2) \<and> timers p2 = []
     \<and> \<not> tciIsTyping (app p2)
     \<and> tciChatMessages (app p2) = tciChatMessages (app p)
          @ [\<lparr> tciMsg_id = now, tciMsg_sender = sender_user, tciMsg_text = t \<rparr>,
             \<lparr> tciMsg_id = now' + 1, tciMsg_sender = sender_bot,
               tciMsg_text = tciBotResponse t \<rparr>]"
proof -
  from session_inv [OF assms(1)] assms(3)
  obtain h where h: "chatEl p = Some h" and ts: "timers p = []"
    by auto
  from send_accepted [OF h assms(2,3), of now] obtain p1 where
    p1: "tciHandleChatSend t now p = (Returned, p1)"
      "tciChatMessages (app p1) = tciChatMessages (app p)
          @ [\<lparr> tciMsg_id = now, tciMsg_sender = sender_user, tciMsg_text = t \<rparr>]"
      "tciIsTyping (app p1)" "timers p1 = timers p @ [t]"
      "chatEl p1 = Some (tciHtml_of (app p1))"
    by blast
  have h1: "chatEl (p1\<lparr>timers := []\<rparr>) = Some (tciHtml_of (app p1))"
    using p1(5) by simp
  from callback_runs [OF h1, of t now'] obtain p2 where
    p2: "timeout_callback t now' (p1\<lparr>timers := []\<rparr>) = (Returned, p2)"
      "tciChatMessages (app p2) = tciChatMessages (app (p1\<lparr>timers := []\<rparr>))
          @ [\<lparr> tciMsg_id = now' + 1, tciMsg_sender = sender_bot,
               tciMsg_text = tciBotResponse t \<rparr>]"
      "\<not> tciIsTyping (app p2)" "timers p2 = timers (p1\<lparr>timers := []\<rparr>)"
    by blast
  have "step (TimerFires now') p1 = Some (Returned, p2)"
    using p1(4) ts p2(1) by simp
  with p1 p2 ts show ?thesis by simp
qed

text \<open>
  Outside a session, on a page without the element \<open>#tci-chat-messages\<close>, an accepted
  submission appends the user message, sets \<open>tciIsTyping\<close> and is then left by the
  \<open>TypeError\<close> of the render, before any timer is scheduled.
\<close>

lemma send_without_chatEl:
  assumes "chatEl p = None" "js_trim t \<noteq> []" "\<not> tciIsTyping (app p)"
  shows "tciHandleChatSend t now p =
     (TypeError, p\<lparr>app := (push_msg \<lparr> tciMsg_id = now, tciMsg_sender = sender_user,
                                        tciMsg_text = t \<rparr> (app p))\<lparr>tciIsTyping := True\<rparr>\<rparr>)"
  using assms
  by (simp add: tciHandleChatSend_def tciRenderMessages_def write_chatEl_def Let_def)

text \<open>A concrete session page: the page right after \<open>tciInitChatDemo\<close>.\<close>

lemma session_after_init: "session (snd (tciInitChatDemo (page_init (Some []))))"
  by (rule session_init [of "Some []"])
     (simp add: tciInitChatDemo_def local_tciRenderMessages_def write_chatEl_def
        page_init_def)

lemma not_typing_after_init:
  "\<not> tciIsTyping (app (snd (tciInitChatDemo (page_init (Some [])))))"
  by (simp add: tciInitChatDemo_def local_tciRenderMessages_def write_chatEl_def
      page_init_def tciMoamoaApp_init_def)

lemma messages_after_init:
  "tciChatMessages (app (snd (tciInitChatDemo (page_init (Some []))))) =
     [\<lparr> tciMsg_id = 1, tciMsg_sender = sender_bot, tciMsg_text = seed_text \<rparr>]"
  by (simp add: tciInitChatDemo_def local_tciRenderMessages_def write_chatEl_def
      page_init_def tciMoamoaApp_init_def)

lemma trim_x: "js_trim (ascii ''x'') \<noteq> []"
  by (simp add: js_trim_def ascii_def js_is_space_def)

lemma step_prefix:
  "step e p = Some (r, p') \<Longrightarrow> prefix (tciChatMessages (app p)) (tciChatMessages (app p'))"
  by (cases e)
     (auto simp: tciHandleChatSend_def timeout_callback_def tciRenderMessages_def
        local_tciRenderMessages_def write_chatEl_def push_msg_def Let_def
        split: option.splits if_splits list.splits)

lemma run_prefix: "prefix (tciChatMessages (app p)) (tciChatMessages (app (run es p)))"
proof (induction es arbitrary: p)
  case Nil
  show ?case by simp
next
  case (Cons e es)
  show ?case
  proof (cases "step e p")
    case None
    with Cons show ?thesis by simp
  next
    case (Some rp)
    obtain r p' where rp: "rp = (r, p')" by (cases rp)
    from Some rp have "prefix (tciChatMessages (app p)) (tciChatMessages (app p'))"
      by (simp add: step_prefix)
    moreover have "prefix (tciChatMessages (app p')) (tciChatMessages (app (run es p')))"
      by (rule Cons.IH)
    ultimately show ?thesis
      using Some rp by (auto intro: prefix_order.trans)
  qed
qed

lemma tciHtml_of_blocks:
  "tciHtml_of a = concat (map (forEach_body []) (tciChatMessages a))
       @ (if tciIsTyping a then typing_block else [])"
  by (simp add: tciHtml_of_def Let_def foldl_forEach_body [of "[]"])

lemma local_tciHtml_eq: "local_tciHtml a = tciHtml_of a"
  by (simp add: local_tciHtml_def tciHtml_of_def foldl_local_forEach_body typing_block_def
      typing_text_def Let_def)

section \<open>Empty input\<close>

text \<open>
  Claim C3. For every page and every text that is empty after trimming,
  \<open>tciHandleChatSend\<close> returns normally and leaves the whole page as it was: the
  message list, the typing flag, the pending timers and the rendered markup.
\<close>

theorem blank_text_is_noop:
  assumes "js_trim t = []"
  shows "tciHandleChatSend t now p = (Returned, p)"
  using assms by (simp add: tciHandleChatSend_def)

theorem blank_text_is_noop_witness:
  "js_trim [] = []
   \<and> tciHandleChatSend [] 1700000000000 (page_init (Some [])) = (Returned, page_init (Some []))
   \<and> js_trim (ascii ''   '') = []
   \<and> tciHandleChatSend (ascii ''   '') 1700000000000 (page_init (Some []))
       = (Returned, page_init (Some []))"
proof -
  have a: "js_trim [] = []"
    by (simp add: js_trim_def)
  have b: "js_trim (ascii ''   '') = []"
    by (simp add: js_trim_def ascii_def js_is_space_def)
  show ?thesis
    using a b blank_text_is_noop [OF a, of 1700000000000 "page_init (Some [])"]
      blank_text_is_noop [OF b, of 1700000000000 "page_init (Some [])"]
    by simp
qed

section \<open>The reply to an accepted submission\<close>

text \<open>
  Claim C1. On a session page, a submission whose text is not empty after trimming, made
  while \<open>tciIsTyping\<close> is false, returns normally; when its timer then runs, the message
  list has grown by exactly two messages, the first from the user and the second from the
  bot, and the text of the bot message is chosen by substring containment (on UTF-16 code
  units, hence case-sensitive): the school-supplies reply when the text contains
  U+ACF5 U+CC45 (notebook), U+C5F0 U+D544 (pencil) or U+BB38 U+AD6C U+C810 (stationery
  shop); otherwise the snack reply when it contains U+ACFC U+C790 (snack) or
  U+B5A1 U+BCF6 U+C774 (tteokbokki); otherwise the generic reply.
\<close>

theorem reply_by_keyword:
  assumes "session p" "js_trim t \<noteq> []" "\<not> tciIsTyping (app p)"
  shows "\<exists>p1 p2 u b. tciHandleChatSend t now p = (Returned, p1)
     \<and> step (TimerFires now') p1 = Some (Returned, p2)
     \<and> tciChatMessages (app p2) = tciChatMessages (app p) @ [u, b]
     \<and> tciMsg_sender u = sender_user \<and> tciMsg_sender b = sender_bot
     \<and> tciMsg_sender u \<noteq> sender_bot
     \<and> tciMsg_text b =
         (if sublist kw_notebook t \<or> sublist kw_pencil t \<or> sublist kw_stationery t
            then reply_supplies
          else if sublist kw_snack t \<or> sublist kw_tteokbokki t then reply_snack
          else reply_generic)"
proof -
  from send_then_complete [OF assms, of now now'] obtain p1 p2 where
    "tciHandleChatSend t now p = (Returned, p1)"
    "step (TimerFires now') p1 = Some (Returned, p2)"
    "tciChatMessages (app p2) = tciChatMessages (app p)
          @ [\<lparr> tciMsg_id = now, tciMsg_sender = sender_user, tciMsg_text = t \<rparr>,
             \<lparr> tciMsg_id = now' + 1, tciMsg_sender = sender_bot, tciMsg_text = tciBotResponse t \<rparr>]"
    by blast
  moreover have "tciBotResponse t =
         (if sublist kw_notebook t \<or> sublist kw_pencil t \<or> sublist kw_stationery t
            then reply_supplies
          else if sublist kw_snack t \<or> sublist kw_tteokbokki t then reply_snack
          else reply_generic)"
    by (simp add: tciBotResponse_def js_includes_sublist)
  ultimately show ?thesis
    using sender_bot_ne_user by (intro exI conjI) (assumption | simp)+
qed

theorem reply_by_keyword_witness:
  "session (snd (tciInitChatDemo (page_init (Some []))))
   \<and> js_trim kw_tteokbokki \<noteq> []
   \<and> \<not> tciIsTyping (app (snd (tciInitChatDemo (page_init (Some [])))))
   \<and> (\<exists>p1 p2 u b.
        tciHandleChatSend kw_tteokbokki 1700000000000 (snd (tciInitChatDemo (page_init (Some []))))
          = (Returned, p1)
      \<and> step (TimerFires 1700000001500) p1 = Some (Returned, p2)
      \<and> tciChatMessages (app p2) =
          [\<lparr> tciMsg_id = 1, tciMsg_sender = sender_bot, tciMsg_text = seed_text \<rparr>, u, b]
      \<and> tciMsg_sender u = sender_user \<and> tciMsg_sender b = sender_bot
      \<and> tciMsg_text b = reply_snack)"
proof -
  have t: "js_trim kw_tteokbokki \<noteq> []"
    by (simp add: js_trim_def kw_tteokbokki_def js_is_space_def)
  have k: "\<not> sublist kw_notebook kw_tteokbokki" "\<not> sublist kw_pencil kw_tteokbokki"
    "\<not> sublist kw_stationery kw_tteokbokki" "sublist kw_tteokbokki kw_tteokbokki"
    by (simp_all add: js_includes_sublist [symmetric] kw_tteokbokki_def kw_notebook_def
        kw_pencil_def kw_stationery_def)
  show ?thesis
    using reply_by_keyword [OF session_after_init t not_typing_after_init,
        of 1700000000000 1700000001500]
      session_after_init t not_typing_after_init
    by (simp add: k messages_after_init) blast
qed

text \<open>
  Claim C2. On a session page, an accepted submission whose text contains a keyword of
  the first set and a keyword of the second set is answered with the school-supplies
  reply: the first set is tested first.
\<close>

theorem set_A_wins_tie:
  assumes "session p" "js_trim t \<noteq> []" "\<not> tciIsTyping (app p)"
    and "sublist kw_notebook t \<or> sublist kw_pencil t \<or> sublist kw_stationery t"
    and "sublist kw_snack t \<or> sublist kw_tteokbokki t"
  shows "\<exists>p1 p2. tciHandleChatSend t now p = (Returned, p1)
     \<and> step (TimerFires now') p1 = Some (Returned, p2)
     \<and> tciChatMessages (app p2) = tciChatMessages (app p)
          @ [\<lparr> tciMsg_id = now, tciMsg_sender = sender_user, tciMsg_text = t \<rparr>,
             \<lparr> tciMsg_id = now' + 1, tciMsg_sender = sender_bot,
               tciMsg_text = reply_supplies \<rparr>]"
proof -
  have "tciBotResponse t = reply_supplies"
    using assms(4) by (simp add: tciBotResponse_def js_includes_sublist)
  with send_then_complete [OF assms(1-3), of now now'] show ?thesis
    by auto
qed

theorem set_A_wins_tie_witness:
  "session (snd (tciInitChatDemo (page_init (Some []))))
   \<and> js_trim (kw_tteokbokki @ kw_pencil) \<noteq> []
   \<and> \<not> tciIsTyping (app (snd (tciInitChatDemo (page_init (Some [])))))
   \<and> sublist kw_pencil (kw_tteokbokki @ kw_pencil)
   \<and> sublist kw_tteokbokki (kw_tteokbokki @ kw_pencil)
   \<and> (\<exists>p1 p2.
        tciHandleChatSend (kw_tteokbokki @ kw_pencil) 1700000000000
          (snd (tciInitChatDemo (page_init (Some [])))) = (Returned, p1)
      \<and> step (TimerFires 1700000001500) p1 = Some (Returned, p2)
      \<and> tciChatMessages (app p2) =
          [\<lparr> tciMsg_id = 1, tciMsg_sender = sender_bot, tciMsg_text = seed_text \<rparr>,
           \<lparr> tciMsg_id = 1700000000000, tciMsg_sender = sender_user,
             tciMsg_text = kw_tteokbokki @ kw_pencil \<rparr>,
           \<lparr> tciMsg_id = 1700000001501, tciMsg_sender = sender_bot,
             tciMsg_text = reply_supplies \<rparr>])"
proof -
  have t: "js_trim (kw_tteokbokki @ kw_pencil) \<noteq> []"
    by (simp add: js_trim_def kw_tteokbokki_def kw_pencil_def js_is_space_def)
  have a: "sublist kw_pencil (kw_tteokbokki @ kw_pencil)"
    by simp
  have b: "sublist kw_tteokbokki (kw_tteokbokki @ kw_pencil)"
    by simp
  have a': "sublist kw_notebook (kw_tteokbokki @ kw_pencil)
      \<or> sublist kw_pencil (kw_tteokbokki @ kw_pencil)
      \<or> sublist kw_stationery (kw_tteokbokki @ kw_pencil)"
    using a by simp
  have b': "sublist kw_snack (kw_tteokbokki @ kw_pencil)
      \<or> sublist kw_tteokbokki (kw_tteokbokki @ kw_pencil)"
    using b by simp
  show ?thesis
    using set_A_wins_tie [OF session_after_init t not_typing_after_init a' b',
        of 1700000000000 1700000001500]
      session_after_init t not_typing_after_init a b
    by (simp add: messages_after_init)
qed

section \<open>One pending reply at a time\<close>

text \<open>
  Claim C4. While \<open>tciIsTyping\<close> is true, \<open>tciHandleChatSend\<close> returns with the page
  unchanged. So of two calls in immediate succession, the first one accepted, the second
  changes nothing and exactly one user message has been appended. On every session page
  at most one timer is pending, and one is pending exactly while \<open>tciIsTyping\<close> is
  true.
\<close>

theorem typing_rejects_send:
  "(tciIsTyping (app p) \<longrightarrow> tciHandleChatSend t now p = (Returned, p))
   \<and> (\<not> tciIsTyping (app p) \<and> js_trim t \<noteq> [] \<longrightarrow>
        tciHandleChatSend t' now' (snd (tciHandleChatSend t now p))
          = (Returned, snd (tciHandleChatSend t now p))
        \<and> tciChatMessages (app (snd (tciHandleChatSend t now p)))
          = tciChatMessages (app p)
            @ [\<lparr> tciMsg_id = now, tciMsg_sender = sender_user, tciMsg_text = t \<rparr>])
   \<and> (session p \<longrightarrow> length (timers p) \<le> 1 \<and> (timers p \<noteq> [] \<longleftrightarrow> tciIsTyping (app p)))"
proof (intro conjI impI)
  assume "tciIsTyping (app p)"
  then show "tciHandleChatSend t now p = (Returned, p)"
    by (simp add: tciHandleChatSend_def)
next
  assume a: "\<not> tciIsTyping (app p) \<and> js_trim t \<noteq> []"
  then have ty: "tciIsTyping (app (snd (tciHandleChatSend t now p)))"
    by (simp add: tciHandleChatSend_def tciRenderMessages_def write_chatEl_def push_msg_def
        Let_def split: option.splits)
  then show "tciHandleChatSend t' now' (snd (tciHandleChatSend t now p))
          = (Returned, snd (tciHandleChatSend t now p))"
    by (simp add: tciHandleChatSend_def [of t' now'])
  from a show "tciChatMessages (app (snd (tciHandleChatSend t now p)))
          = tciChatMessages (app p)
            @ [\<lparr> tciMsg_id = now, tciMsg_sender = sender_user, tciMsg_text = t \<rparr>]"
    by (simp add: tciHandleChatSend_def tciRenderMessages_def write_chatEl_def push_msg_def
        Let_def split: option.splits)
next
  assume "session p"
  from session_inv [OF this] show "length (timers p) \<le> 1"
    by (auto split: if_splits)
next
  assume "session p"
  from session_inv [OF this] show "(timers p \<noteq> []) = tciIsTyping (app p)"
    by (auto split: if_splits)
qed

theorem typing_rejects_send_witness:
  "\<not> tciIsTyping (app (snd (tciInitChatDemo (page_init (Some [])))))
   \<and> js_trim (ascii ''x'') \<noteq> []
   \<and> tciIsTyping (app (snd (tciHandleChatSend (ascii ''x'') 1700000000000
         (snd (tciInitChatDemo (page_init (Some [])))))))
   \<and> tciHandleChatSend (ascii ''x'') 1700000000001
        (snd (tciHandleChatSend (ascii ''x'') 1700000000000
           (snd (tciInitChatDemo (page_init (Some []))))))
      = (Returned, snd (tciHandleChatSend (ascii ''x'') 1700000000000
           (snd (tciInitChatDemo (page_init (Some []))))))
   \<and> tciChatMessages (app (snd (tciHandleChatSend (ascii ''x'') 1700000000000
         (snd (tciInitChatDemo (page_init (Some [])))))))
      = [\<lparr> tciMsg_id = 1, tciMsg_sender = sender_bot, tciMsg_text = seed_text \<rparr>,
         \<lparr> tciMsg_id = 1700000000000, tciMsg_sender = sender_user,
           tciMsg_text = ascii ''x'' \<rparr>]
   \<and> session (snd (tciHandleChatSend (ascii ''x'') 1700000000000
         (snd (tciInitChatDemo (page_init (Some []))))))
   \<and> length (timers (snd (tciHandleChatSend (ascii ''x'') 1700000000000
         (snd (tciInitChatDemo (page_init (Some []))))))) \<le> 1"
proof -
  let ?p0 = "snd (tciInitChatDemo (page_init (Some [])))"
  let ?p1 = "snd (tciHandleChatSend (ascii ''x'') 1700000000000 ?p0)"
  have s1: "session ?p1"
    by (rule session_step [OF session_after_init,
          of "ChatSend (ascii ''x'') 1700000000000"
             "fst (tciHandleChatSend (ascii ''x'') 1700000000000 ?p0)"])
       simp
  have ty: "tciIsTyping (app ?p1)"
    using send_then_complete [OF session_after_init trim_x not_typing_after_init,
        of 1700000000000 0]
    by auto
  show ?thesis
    using typing_rejects_send [of ?p0 "ascii ''x''" 1700000000000 "ascii ''x''" 1700000000001]
      typing_rejects_send [of ?p1 "ascii ''x''" 1700000000001]
      s1 ty trim_x not_typing_after_init
    by (simp add: messages_after_init)
qed

text \<open>
  Claim C5. On a session page, an accepted submission schedules exactly one timer. When
  it runs it leaves the queue, so it cannot run a second time; after it has run
  \<open>tciIsTyping\<close> is false and the message list is the old list followed by the user
  message carrying the submitted text and then one bot message.
\<close>

theorem accepted_submission_completes:
  assumes "session p" "js_trim t \<noteq> []" "\<not> tciIsTyping (app p)"
  shows "\<exists>p1 p2. tciHandleChatSend t now p = (Returned, p1) \<and> timers p1 = [t]
     \<and> step (TimerFires now') p1 = Some (Returned, p2) \<and> timers p2 = []
     \<and> step (TimerFires now'') p2 = None
     \<and> \<not> tciIsTyping (app p2)
     \<and> length (tciChatMessages (app p2)) = length (tciChatMessages (app p)) + 2
     \<and> tciChatMessages (app p2) = tciChatMessages (app p)
          @ [\<lparr> tciMsg_id = now, tciMsg_sender = sender_user, tciMsg_text = t \<rparr>,
             \<lparr> tciMsg_id = now' + 1, tciMsg_sender = sender_bot,
               tciMsg_text = tciBotResponse t \<rparr>]"
proof -
  from send_then_complete [OF assms, of now now'] obtain p1 p2 where
    *: "tciHandleChatSend t now p = (Returned, p1)" "timers p1 = [t]"
      "step (TimerFires now') p1 = Some (Returned, p2)" "timers p2 = []"
      "\<not> tciIsTyping (app p2)"
      "tciChatMessages (app p2) = tciChatMessages (app p)
          @ [\<lparr> tciMsg_id = now, tciMsg_sender = sender_user, tciMsg_text = t \<rparr>,
             \<lparr> tciMsg_id = now' + 1, tciMsg_sender = sender_bot,
               tciMsg_text = tciBotResponse t \<rparr>]"
    by blast
  from *(4) have "step (TimerFires now'') p2 = None"
    by simp
  with * show ?thesis
    by (intro exI conjI) (assumption | simp)+
qed

theorem accepted_submission_completes_witness:
  "session (snd (tciInitChatDemo (page_init (Some []))))
   \<and> js_trim (ascii ''x'') \<noteq> []
   \<and> \<not> tciIsTyping (app (snd (tciInitChatDemo (page_init (Some [])))))
   \<and> (\<exists>p1 p2.
        tciHandleChatSend (ascii ''x'') 1700000000000
          (snd (tciInitChatDemo (page_init (Some [])))) = (Returned, p1)
      \<and> timers p1 = [ascii ''x'']
      \<and> step (TimerFires 1700000001500) p1 = Some (Returned, p2) \<and> timers p2 = []
      \<and> step (TimerFires 1700000003000) p2 = None
      \<and> \<not> tciIsTyping (app p2)
      \<and> length (tciChatMessages (app p2)) = 3
      \<and> tciChatMessages (app p2) =
          [\<lparr> tciMsg_id = 1, tciMsg_sender = sender_bot, tciMsg_text = seed_text \<rparr>,
           \<lparr> tciMsg_id = 1700000000000, tciMsg_sender = sender_user,
             tciMsg_text = ascii ''x'' \<rparr>,
           \<lparr> tciMsg_id = 1700000001501, tciMsg_sender = sender_bot,
             tciMsg_text = tciBotResponse (ascii ''x'') \<rparr>])"
  using accepted_submission_completes [OF session_after_init trim_x not_typing_after_init,
      of 1700000000000 1700000001500 1700000003000]
    session_after_init trim_x not_typing_after_init
  by (simp add: messages_after_init numeral_3_eq_3)

section \<open>Message ids\<close>

text \<open>
  Claim C6, as stated, fails. The ids are clock readings: \<open>Date.now()\<close> for a user
  message, \<open>Date.now() + 1\<close> for a bot reply, and nothing compares a new id with
  the ids already in the list. In the session below a reply completes at clock
  1700000001500 and the next submission is made one millisecond later: the bot message
  and the following user message both get the id 1700000001501.
\<close>

theorem ids_can_repeat:
  "session (run [ChatSend (ascii ''x'') 1700000000000, TimerFires 1700000001500,
                 ChatSend (ascii ''x'') 1700000001501]
              (snd (tciInitChatDemo (page_init (Some [])))))
   \<and> map tciMsg_id (tciChatMessages (app
        (run [ChatSend (ascii ''x'') 1700000000000, TimerFires 1700000001500,
              ChatSend (ascii ''x'') 1700000001501]
           (snd (tciInitChatDemo (page_init (Some [])))))))
      = [1, 1700000000000, 1700000001501, 1700000001501]
   \<and> \<not> distinct (map tciMsg_id (tciChatMessages (app
        (run [ChatSend (ascii ''x'') 1700000000000, TimerFires 1700000001500,
              ChatSend (ascii ''x'') 1700000001501]
           (snd (tciInitChatDemo (page_init (Some []))))))))"
proof -
  let ?p0 = "snd (tciInitChatDemo (page_init (Some [])))"
  from send_then_complete [OF session_after_init trim_x not_typing_after_init,
      of 1700000000000 1700000001500]
  obtain p1 p2 where
    a: "tciHandleChatSend (ascii ''x'') 1700000000000 ?p0 = (Returned, p1)"
      "step (TimerFires 1700000001500) p1 = Some (Returned, p2)"
      "\<not> tciIsTyping (app p2)"
      "tciChatMessages (app p2) = tciChatMessages (app ?p0)
          @ [\<lparr> tciMsg_id = 1700000000000, tciMsg_sender = sender_user,
               tciMsg_text = ascii ''x'' \<rparr>,
             \<lparr> tciMsg_id = 1700000001500 + 1, tciMsg_sender = sender_bot,
               tciMsg_text = tciBotResponse (ascii ''x'') \<rparr>]"
    by blast
  have s1: "session p1"
    by (rule session_step [OF session_after_init, of "ChatSend (ascii ''x'') 1700000000000"])
       (simp add: a(1))
  have s2: "session p2"
    by (rule session_step [OF s1 a(2)])
  from send_then_complete [OF s2 trim_x a(3), of 1700000001501 0]
  obtain p3 where
    b: "tciHandleChatSend (ascii ''x'') 1700000001501 p2 = (Returned, p3)"
    by blast
  have s3: "session p3"
    by (rule session_step [OF s2, of "ChatSend (ascii ''x'') 1700000001501"])
       (simp add: b)
  have m3: "tciChatMessages (app p3) = tciChatMessages (app p2)
      @ [\<lparr> tciMsg_id = 1700000001501, tciMsg_sender = sender_user,
           tciMsg_text = ascii ''x'' \<rparr>]"
    using b a(3) trim_x
    by (auto simp: tciHandleChatSend_def tciRenderMessages_def write_chatEl_def push_msg_def
        Let_def split: option.splits)
  have r: "run [ChatSend (ascii ''x'') 1700000000000, TimerFires 1700000001500,
                 ChatSend (ascii ''x'') 1700000001501] ?p0 = p3"
    using a(1,2) b by simp
  show ?thesis
    unfolding r using s3 m3 a(4) by (simp add: messages_after_init)
qed

text \<open>
  Claim C6, amended. When the ids in the list are strictly increasing and the clock
  reading of an event is greater than every id in the list, every message the event
  appends has an id strictly greater than every id already there, and the ids of the new
  list are strictly increasing, hence pairwise distinct.
\<close>

theorem ids_increase_when_clock_ahead:
  assumes "sorted_wrt (<) (map tciMsg_id (tciChatMessages (app p)))"
    and "\<forall>m \<in> set (tciChatMessages (app p)). tciMsg_id m < now"
    and "e \<in> {ChatSend t now, QuickInputClick t now, ChatSendClick t now, TimerFires now,
               Render}"
    and "step e p = Some (r, p')"
  shows "\<exists>new. tciChatMessages (app p') = tciChatMessages (app p) @ new
     \<and> (\<forall>n \<in> set new. \<forall>m \<in> set (tciChatMessages (app p)). tciMsg_id m < tciMsg_id n)
     \<and> sorted_wrt (<) (map tciMsg_id (tciChatMessages (app p')))
     \<and> distinct (map tciMsg_id (tciChatMessages (app p')))"
proof -
  have new: "\<exists>new. tciChatMessages (app p') = tciChatMessages (app p) @ new
     \<and> (\<forall>n \<in> set new. tciMsg_id n = now \<or> tciMsg_id n = now + 1)
     \<and> length new \<le> 1"
    using assms(3,4)
    by (auto simp: tciHandleChatSend_def timeout_callback_def tciRenderMessages_def
        local_tciRenderMessages_def write_chatEl_def push_msg_def Let_def
        split: option.splits if_splits list.splits)
  then obtain new where n: "tciChatMessages (app p') = tciChatMessages (app p) @ new"
    "\<forall>n \<in> set new. tciMsg_id n = now \<or> tciMsg_id n = now + 1" "length new \<le> 1"
    by blast
  have gt: "\<forall>n \<in> set new. \<forall>m \<in> set (tciChatMessages (app p)). tciMsg_id m < tciMsg_id n"
    using n(2) assms(2) by fastforce
  have "sorted_wrt (<) (map tciMsg_id new)"
    using n(3) by (cases new) auto
  with gt assms(1) have s: "sorted_wrt (<) (map tciMsg_id (tciChatMessages (app p')))"
    by (simp add: n(1) sorted_wrt_append)
  have "distinct (map tciMsg_id (tciChatMessages (app p')))"
    using s by (simp add: strict_sorted_iff)
  with n(1) gt s show ?thesis by blast
qed

theorem ids_increase_when_clock_ahead_witness:
  "sorted_wrt (<) (map tciMsg_id (tciChatMessages (app (snd (tciInitChatDemo (page_init (Some [])))))))
   \<and> list_all (\<lambda>m. tciMsg_id m < 1700000000000)
        (tciChatMessages (app (snd (tciInitChatDemo (page_init (Some []))))))
   \<and> step (ChatSend (ascii ''x'') 1700000000000) (snd (tciInitChatDemo (page_init (Some []))))
       = Some (tciHandleChatSend (ascii ''x'') 1700000000000
                 (snd (tciInitChatDemo (page_init (Some [])))))
   \<and> map tciMsg_id (tciChatMessages (app (snd (tciHandleChatSend (ascii ''x'') 1700000000000
         (snd (tciInitChatDemo (page_init (Some []))))))))
       = [1, 1700000000000]
   \<and> sorted_wrt (<) (map tciMsg_id (tciChatMessages (app (snd (tciHandleChatSend (ascii ''x'')
         1700000000000 (snd (tciInitChatDemo (page_init (Some [])))))))))
   \<and> distinct (map tciMsg_id (tciChatMessages (app (snd (tciHandleChatSend (ascii ''x'')
         1700000000000 (snd (tciInitChatDemo (page_init (Some [])))))))))"
proof -
  let ?p0 = "snd (tciInitChatDemo (page_init (Some [])))"
  let ?e = "ChatSend (ascii ''x'') 1700000000000"
  let ?rp = "tciHandleChatSend (ascii ''x'') 1700000000000 ?p0"
  have a: "sorted_wrt (<) (map tciMsg_id (tciChatMessages (app ?p0)))"
    by (simp add: messages_after_init)
  have b: "\<forall>m \<in> set (tciChatMessages (app ?p0)). tciMsg_id m < 1700000000000"
    by (simp add: messages_after_init)
  have c: "?e \<in> {ChatSend (ascii ''x'') 1700000000000,
      QuickInputClick (ascii ''x'') 1700000000000, ChatSendClick (ascii ''x'') 1700000000000,
      TimerFires 1700000000000, Render}"
    by simp
  have d: "step ?e ?p0 = Some (fst ?rp, snd ?rp)"
    by simp
  have m: "tciChatMessages (app (snd ?rp)) = tciChatMessages (app ?p0)
      @ [\<lparr> tciMsg_id = 1700000000000, tciMsg_sender = sender_user,
           tciMsg_text = ascii ''x'' \<rparr>]"
    using send_then_complete [OF session_after_init trim_x not_typing_after_init,
        of 1700000000000 0]
      not_typing_after_init trim_x
    by (auto simp: tciHandleChatSend_def tciRenderMessages_def write_chatEl_def push_msg_def
        Let_def split: option.splits)
  show ?thesis
    using ids_increase_when_clock_ahead [OF a b c d] a b d m
    by (simp add: messages_after_init)
qed

section \<open>The message list only grows, and is rendered in order\<close>

text \<open>
  Claim C7. Every event (a submission by call or click, a timer running, a render)
  leaves the old message list as a prefix of the new one, and so does every run of
  events; \<open>tciInitChatDemo\<close>, the one caller of the local render, leaves the list as
  it is: nothing is reordered, changed or deleted. Both render functions produce the
  concatenation, in list order, of one block per message (the \<open>forEach\<close> callback
  applied to that message alone), followed by the typing block when \<open>tciIsTyping\<close> is
  true.
\<close>

theorem messages_append_only:
  "(step e p = Some (r, p') \<longrightarrow> prefix (tciChatMessages (app p)) (tciChatMessages (app p')))
   \<and> prefix (tciChatMessages (app p)) (tciChatMessages (app (run es p)))
   \<and> tciChatMessages (app (snd (tciInitChatDemo p))) = tciChatMessages (app p)
   \<and> tciHtml_of a = concat (map (forEach_body []) (tciChatMessages a))
       @ (if tciIsTyping a then typing_block else [])
   \<and> local_tciHtml a = concat (map (local_forEach_body []) (tciChatMessages a))
       @ (if tciIsTyping a then typing_block else [])"
proof -
  have "local_forEach_body [] = forEach_body []"
    using foldl_local_forEach_body [of "[]" "[m]" for m] by (intro ext) simp
  moreover have "tciChatMessages (app (snd (tciInitChatDemo p))) = tciChatMessages (app p)"
    by (simp add: tciInitChatDemo_def local_tciRenderMessages_def write_chatEl_def
        split: option.splits)
  ultimately show ?thesis
    by (simp add: step_prefix run_prefix local_tciHtml_eq tciHtml_of_blocks [symmetric])
qed

theorem messages_append_only_witness:
  "step (ChatSend (ascii ''x'') 1700000000000) (snd (tciInitChatDemo (page_init (Some []))))
     = Some (tciHandleChatSend (ascii ''x'') 1700000000000
               (snd (tciInitChatDemo (page_init (Some [])))))
   \<and> prefix (tciChatMessages (app (snd (tciInitChatDemo (page_init (Some []))))))
        (tciChatMessages (app (snd (tciHandleChatSend (ascii ''x'') 1700000000000
           (snd (tciInitChatDemo (page_init (Some []))))))))
   \<and> prefix (tciChatMessages (app (snd (tciInitChatDemo (page_init (Some []))))))
        (tciChatMessages (app (run [ChatSend (ascii ''x'') 1700000000000,
             TimerFires 1700000001500, Render]
           (snd (tciInitChatDemo (page_init (Some [])))))))
   \<and> tciHtml_of tciMoamoaApp_init = bot_open @ seed_text @ block_close
   \<and> local_tciHtml tciMoamoaApp_init = bot_open @ seed_text @ block_close"
proof -
  let ?p0 = "snd (tciInitChatDemo (page_init (Some [])))"
  let ?rp = "tciHandleChatSend (ascii ''x'') 1700000000000 ?p0"
  have d: "step (ChatSend (ascii ''x'') 1700000000000) ?p0 = Some (fst ?rp, snd ?rp)"
    by simp
  have b: "forEach_body [] \<lparr> tciMsg_id = 1, tciMsg_sender = sender_bot,
      tciMsg_text = seed_text \<rparr> = bot_open @ seed_text @ block_close"
    using sender_bot_ne_user by (simp add: forEach_body_def)
  have i: "tciChatMessages tciMoamoaApp_init = [\<lparr> tciMsg_id = 1, tciMsg_sender = sender_bot,
      tciMsg_text = seed_text \<rparr>]" "\<not> tciIsTyping tciMoamoaApp_init"
    by (simp_all add: tciMoamoaApp_init_def)
  have l: "local_forEach_body [] \<lparr> tciMsg_id = 1, tciMsg_sender = sender_bot,
      tciMsg_text = seed_text \<rparr> = bot_open @ seed_text @ block_close"
    using sender_bot_ne_user
    by (simp add: local_forEach_body_def sender_user_def bot_open_def block_close_def)
  show ?thesis
    using messages_append_only [of "ChatSend (ascii ''x'') 1700000000000" ?p0 "fst ?rp" "snd ?rp"
        "[ChatSend (ascii ''x'') 1700000000000, TimerFires 1700000001500, Render]"
        tciMoamoaApp_init] d
    by (simp add: i b l)
qed

section \<open>Opening the policy modal without policy data\<close>

text \<open>
  Claim C8. When \<open>window.tciMoamoaPolicyData\<close> is undefined, \<open>tciOpenModal\<close>
  returns normally: the title element gets the title of the requested policy, the
  content element gets the empty string, the modal loses the class \<open>hidden\<close>, and the
  body's overflow is set to \<open>hidden\<close>.
\<close>

theorem open_modal_without_policy_data:
  assumes "tciMoamoaPolicyData d = None"
  shows "fst (tciOpenModal ty d) = Returned
     \<and> modalTitle (snd (tciOpenModal ty d))
         = map_option (\<lambda>old. if ty = ascii ''terms'' then title_terms else title_privacy)
             (modalTitle d)
     \<and> modalContent (snd (tciOpenModal ty d)) = map_option (\<lambda>old. []) (modalContent d)
     \<and> modalHidden (snd (tciOpenModal ty d)) = map_option (\<lambda>old. False) (modalHidden d)
     \<and> bodyOverflow (snd (tciOpenModal ty d)) = ascii ''hidden''"
  using assms
  by (cases "modalTitle d"; cases "modalContent d"; cases "modalHidden d")
     (simp_all add: tciOpenModal_def jq_set_def Let_def)

theorem open_modal_without_policy_data_witness:
  "tciMoamoaPolicyData \<lparr> tciMoamoaPolicyData = None, modalTitle = Some [],
       modalContent = Some (ascii ''old''), modalHidden = Some True,
       bodyOverflow = ascii ''unset'', lucide = False, createIconsCalls = 0 \<rparr> = None
   \<and> fst (tciOpenModal (ascii ''terms'') \<lparr> tciMoamoaPolicyData = None, modalTitle = Some [],
       modalContent = Some (ascii ''old''), modalHidden = Some True,
       bodyOverflow = ascii ''unset'', lucide = False, createIconsCalls = 0 \<rparr>) = Returned
   \<and> modalTitle (snd (tciOpenModal (ascii ''terms'') \<lparr> tciMoamoaPolicyData = None,
       modalTitle = Some [], modalContent = Some (ascii ''old''), modalHidden = Some True,
       bodyOverflow = ascii ''unset'', lucide = False, createIconsCalls = 0 \<rparr>))
      = Some title_terms
   \<and> modalContent (snd (tciOpenModal (ascii ''terms'') \<lparr> tciMoamoaPolicyData = None,
       modalTitle = Some [], modalContent = Some (ascii ''old''), modalHidden = Some True,
       bodyOverflow = ascii ''unset'', lucide = False, createIconsCalls = 0 \<rparr>))
      = Some []
   \<and> modalHidden (snd (tciOpenModal (ascii ''terms'') \<lparr> tciMoamoaPolicyData = None,
       modalTitle = Some [], modalContent = Some (ascii ''old''), modalHidden = Some True,
       bodyOverflow = ascii ''unset'', lucide = False, createIconsCalls = 0 \<rparr>))
      = Some False"
  using open_modal_without_policy_data [of "\<lparr> tciMoamoaPolicyData = None,
       modalTitle = Some [], modalContent = Some (ascii ''old''), modalHidden = Some True,
       bodyOverflow = ascii ''unset'', lucide = False, createIconsCalls = 0 \<rparr>" "ascii ''terms''"]
  by simp

section \<open>The two render functions\<close>

text \<open>
  Claim C9. The closure \<open>tciRenderMessages\<close> of \<open>tciInitChatDemo\<close> and the global
  \<open>tciMoamoaApp.tciRenderMessages\<close> build the same markup for every application state,
  and have the same effect on every page.
\<close>

theorem local_render_eq_global:
  "local_tciHtml a = tciHtml_of a \<and> local_tciRenderMessages p = tciRenderMessages p"
  by (simp add: local_tciHtml_eq local_tciRenderMessages_def tciRenderMessages_def)

text \<open>
  Claim C10. The markup is the concatenation of fixed strings with the text of each
  message inserted as it is: for each message the opening of its block (chosen by the
  sender), its text, and the closing; then the typing block when \<open>tciIsTyping\<close> is
  true. So the markup is a function of the application state alone, and the text of
  every message occurs in it as a substring.
\<close>

theorem render_inserts_text_verbatim:
  "tciHtml_of a =
     concat (map (\<lambda>m. (if tciMsg_sender m = ascii ''user'' then user_open else bot_open)
                        @ tciMsg_text m @ block_close) (tciChatMessages a))
     @ (if tciIsTyping a then typing_block else [])
   \<and> (\<forall>m \<in> set (tciChatMessages a). js_includes (tciHtml_of a) (tciMsg_text m))"
proof
  have b: "forEach_body [] = (\<lambda>m. (if tciMsg_sender m = ascii ''user'' then user_open else bot_open)
                        @ tciMsg_text m @ block_close)"
    by (auto simp: forEach_body_def sender_user_def)
  show f: "tciHtml_of a =
     concat (map (\<lambda>m. (if tciMsg_sender m = ascii ''user'' then user_open else bot_open)
                        @ tciMsg_text m @ block_close) (tciChatMessages a))
     @ (if tciIsTyping a then typing_block else [])"
    by (simp add: tciHtml_of_blocks b)
  show "\<forall>m \<in> set (tciChatMessages a). js_includes (tciHtml_of a) (tciMsg_text m)"
  proof
    fix m assume "m \<in> set (tciChatMessages a)"
    then obtain xs ys where d: "tciChatMessages a = xs @ m # ys"
      by (auto simp: in_set_conv_decomp)
    let ?blk = "\<lambda>m. (if tciMsg_sender m = ascii ''user'' then user_open else bot_open)
                        @ tciMsg_text m @ block_close"
    let ?ps = "concat (map ?blk xs)
                 @ (if tciMsg_sender m = ascii ''user'' then user_open else bot_open)"
    let ?ss = "block_close @ concat (map ?blk ys)
                 @ (if tciIsTyping a then typing_block else [])"
    have "tciHtml_of a = ?ps @ tciMsg_text m @ ?ss"
      unfolding f d by simp
    then have "sublist (tciMsg_text m) (tciHtml_of a)"
      unfolding sublist_def by blast
    then show "js_includes (tciHtml_of a) (tciMsg_text m)"
      by (simp add: js_includes_sublist)
  qed
qed

theorem render_inserts_text_verbatim_witness:
  "tciHtml_of \<lparr> tciMobileMenuOpen = False,
       tciChatMessages = [\<lparr> tciMsg_id = 1700000000000, tciMsg_sender = ascii ''user'',
                             tciMsg_text = ascii ''<b>1 &lt; 2</b>'' \<rparr>],
       tciIsTyping = True \<rparr>
     = user_open @ ascii ''<b>1 &lt; 2</b>'' @ block_close @ typing_block
   \<and> js_includes
       (tciHtml_of \<lparr> tciMobileMenuOpen = False,
          tciChatMessages = [\<lparr> tciMsg_id = 1700000000000, tciMsg_sender = ascii ''user'',
                                tciMsg_text = ascii ''<b>1 &lt; 2</b>'' \<rparr>],
          tciIsTyping = True \<rparr>)
       (ascii ''<b>1 &lt; 2</b>'')"
proof -
  let ?a = "\<lparr> tciMobileMenuOpen = False,
       tciChatMessages = [\<lparr> tciMsg_id = 1700000000000, tciMsg_sender = ascii ''user'',
                             tciMsg_text = ascii ''<b>1 &lt; 2</b>'' \<rparr>],
       tciIsTyping = True \<rparr>"
  have A: "tciHtml_of ?a = user_open @ ascii ''<b>1 &lt; 2</b>'' @ block_close @ typing_block"
    using render_inserts_text_verbatim [of ?a, THEN conjunct1] by simp
  have B: "js_includes (tciHtml_of ?a) (ascii ''<b>1 &lt; 2</b>'')"
    using render_inserts_text_verbatim [of ?a, THEN conjunct2] by simp
  show ?thesis
    by (rule conjI [OF A B])
qed

end
